theory Spec2Isabelle
  imports Main "HOL-Library.Sublist" "HOL-Library.AList"
begin

section \<open>Module \<open>bilibili_api.dynamic\<close>: the data model\<close>

text \<open>
  Python \<open>str\<close> values are HOL strings: lists of 8-bit characters, read as the code
  points 0..255. Python \<open>int\<close> is \<open>int\<close>. Every exception the source can raise is a
  value of \<open>error\<close>; a function that may raise returns \<open>error + 'a\<close> with \<open>Inl\<close> the
  exception.
\<close>

datatype error =
    KeyError
  | IndexError
  | ValueError
  | AttributeError
  | TypeError
  | CredentialNoSessdataException
  | CredentialNoBiliJctException
  | NetworkException
  | ResponseCodeException int

text \<open>The enums of the module, with their \<open>.value\<close>.\<close>

datatype SendDynmaicType = TEXT | IMAGE

fun SendDynmaicType_value :: "SendDynmaicType \<Rightarrow> int" where
  "SendDynmaicType_value TEXT = 1"
| "SendDynmaicType_value IMAGE = 2"

datatype DynmaicContentType = CT_TEXT | CT_EMOJI | CT_AT | CT_VOTE

fun DynmaicContentType_value :: "DynmaicContentType \<Rightarrow> int" where
  "DynmaicContentType_value CT_TEXT = 1"
| "DynmaicContentType_value CT_EMOJI = 9"
| "DynmaicContentType_value CT_AT = 2"
| "DynmaicContentType_value CT_VOTE = 4"

section \<open>Library functions of Python used by the module\<close>

text \<open>
  \<open>\s\<close> of a \<open>str\<close> pattern: the whitespace code points below 256
  (TAB, LF, VT, FF, CR, FS, GS, RS, US, SPACE, NEL, NBSP).
\<close>

definition is_space :: "char \<Rightarrow> bool" where
  "is_space c = ((of_char c :: nat) \<in> {9, 10, 11, 12, 13, 28, 29, 30, 31, 32, 133, 160})"

definition newline :: char where
  "newline = CHR 0x0A"

text \<open>
  The body \<open>.*?(?=\s)\<close> of the pattern, tried at the head of a suffix: the lazy
  repetition takes as few characters as possible, \<open>.\<close> refuses a line feed, and the
  look-ahead wants a whitespace character next. The result is the number of characters
  the match takes.
\<close>

fun lazy_end :: "string \<Rightarrow> nat option" where
  "lazy_end [] = None"
| "lazy_end (c # cs) =
     (if is_space c then Some 0
      else if c = newline then None
      else map_option Suc (lazy_end cs))"

text \<open>
  The same when the scanner forbids an empty match at this position (it has just
  returned one here): the repetition has to take the first character.
\<close>

fun lazy_end_advance :: "string \<Rightarrow> nat option" where
  "lazy_end_advance [] = None"
| "lazy_end_advance (c # cs) =
     (if c = newline then None else map_option Suc (lazy_end cs))"

text \<open>
  \<open>re.finditer(r"(?<=@).*?(?=\s)", text)\<close>, as the list of \<open>match.group()\<close>.
  \<open>finditer_at prev adv cs\<close> scans the suffix \<open>cs\<close>; \<open>prev\<close> says that the character
  before it is \<open>@\<close> (the look-behind), \<open>adv\<close> that the previous match was empty and
  ended here, so that an empty match is refused at this position. After a match the
  scan goes on from its end; without one it moves one character on.
\<close>

function finditer_at :: "bool \<Rightarrow> bool \<Rightarrow> string \<Rightarrow> string list" where
  "finditer_at prev adv cs =
     (case (if prev then (if adv then lazy_end_advance cs else lazy_end cs) else None) of
        Some k \<Rightarrow>
          take k cs #
            finditer_at (if k = 0 then prev else cs ! (k - 1) = CHR ''@'') (k = 0) (drop k cs)
      | None \<Rightarrow>
          (case cs of
             [] \<Rightarrow> []
           | c # cs' \<Rightarrow> finditer_at (c = CHR ''@'') False cs'))"
  by pat_completeness auto
termination
proof (relation "measure (\<lambda>(prev, adv, cs). 2 * length cs + (if adv then 0 else 1))")
  have lazy_end_less: "lazy_end cs = Some k \<Longrightarrow> k < length cs" for cs k
    by (induction cs arbitrary: k) (auto split: if_splits)
  have lazy_end_advance_less: "lazy_end_advance cs = Some k \<Longrightarrow> 0 < k \<and> k \<le> length cs"
    for cs k
    by (cases cs) (auto split: if_splits dest: lazy_end_less)
  show "wf (measure (\<lambda>(prev, adv, cs). 2 * length cs + (if adv then 0 else 1)))"
    by simp
  show "((if k = 0 then prev else cs ! (k - 1) = CHR ''@'', k = 0, drop k cs), prev, adv, cs)
      \<in> measure (\<lambda>(prev, adv, cs). 2 * length cs + (if adv then 0 else 1))"
    if "(if prev then if adv then lazy_end_advance cs else lazy_end cs else None) = Some k"
    for prev adv :: bool and cs :: string and k :: nat
  proof -
    from that have "(adv \<longrightarrow> 0 < k) \<and> k \<le> length cs"
      by (auto split: if_splits dest: lazy_end_less lazy_end_advance_less)
    then show ?thesis
      by auto
  qed
  show "((c = CHR ''@'', False, cs'), prev, adv, cs)
      \<in> measure (\<lambda>(prev, adv, cs). 2 * length cs + (if adv then 0 else 1))"
    if "cs = c # cs'" for prev adv :: bool and cs :: string and c :: char and cs' :: string
    using that by auto
qed

declare finditer_at.simps [simp del]

definition finditer :: "string \<Rightarrow> string list" where
  "finditer text = finditer_at False False text"

text \<open>\<open>s.replace(old, new)\<close>: every occurrence of \<open>old\<close>, left to right, without overlap.\<close>

fun replace_nonempty :: "char \<Rightarrow> string \<Rightarrow> string \<Rightarrow> string \<Rightarrow> string" where
  "replace_nonempty a old new [] = []"
| "replace_nonempty a old new (c # cs) =
     (if prefix (a # old) (c # cs)
      then new @ replace_nonempty a old new (drop (length old) cs)
      else c # replace_nonempty a old new cs)"

fun replace :: "string \<Rightarrow> string \<Rightarrow> string \<Rightarrow> string" where
  "replace [] new s = new @ concat (map (\<lambda>c. c # new) s)"
| "replace (a # old) new s = replace_nonempty a old new s"

text \<open>\<open>s.index(sub)\<close>: the first position of \<open>sub\<close> in \<open>s\<close>, or \<open>ValueError\<close>.\<close>

fun find_sub :: "string \<Rightarrow> string \<Rightarrow> nat option" where
  "find_sub sub [] = (if sub = [] then Some 0 else None)"
| "find_sub sub (c # cs) =
     (if prefix sub (c # cs) then Some 0 else map_option Suc (find_sub sub cs))"

definition index :: "string \<Rightarrow> string \<Rightarrow> error + nat" where
  "index s sub = (case find_sub sub s of None \<Rightarrow> Inl ValueError | Some i \<Rightarrow> Inr i)"

text \<open>\<open>str(n)\<close> of an integer: its decimal digits, with a minus sign below zero.\<close>

definition digit_char :: "nat \<Rightarrow> char" where
  "digit_char d = char_of (48 + d)"

fun str_nat :: "nat \<Rightarrow> string" where
  "str_nat n = (if n < 10 then [digit_char n] else str_nat (n div 10) @ [digit_char (n mod 10)])"

declare str_nat.simps [simp del]

definition str_int :: "int \<Rightarrow> string" where
  "str_int i = (if i < 0 then CHR ''-'' # str_nat (nat (- i)) else str_nat (nat i))"

text \<open>\<open>sep.join(xs)\<close>.\<close>

fun join :: "string \<Rightarrow> string list \<Rightarrow> string" where
  "join sep [] = []"
| "join sep [x] = x"
| "join sep (x # y # ys) = x @ sep @ join sep (y # ys)"

text \<open>
  \<open>int(s)\<close> on a decimal numeral with an optional minus sign, the only strings the
  module ever passes to it (they come out of \<open>str\<close>); anything else is \<open>ValueError\<close>.
\<close>

definition digit_val :: "char \<Rightarrow> nat option" where
  "digit_val c =
     (if (48::nat) \<le> of_char c \<and> (of_char c :: nat) \<le> 57 then Some (of_char c - 48) else None)"

fun parse_nat :: "nat \<Rightarrow> string \<Rightarrow> nat option" where
  "parse_nat acc [] = Some acc"
| "parse_nat acc (c # cs) =
     (case digit_val c of None \<Rightarrow> None | Some d \<Rightarrow> parse_nat (10 * acc + d) cs)"

definition int_py :: "string \<Rightarrow> error + int" where
  "int_py s =
     (case s of
        [] \<Rightarrow> Inl ValueError
      | c # cs \<Rightarrow>
          if c = CHR ''-'' then
            (if cs = [] then Inl ValueError
             else case parse_nat 0 cs of None \<Rightarrow> Inl ValueError | Some n \<Rightarrow> Inr (- int n))
          else (case parse_nat 0 (c # cs) of None \<Rightarrow> Inl ValueError | Some n \<Rightarrow> Inr (int n)))"

text \<open>
  The values that travel in request bodies and responses: \<open>None\<close>, integers, strings,
  lists and dicts. A dict is an association list in insertion order; \<open>d[k] = v\<close> is
  \<open>AList.update k v d\<close>, which overwrites in place or appends.
\<close>

datatype json =
    JNull
  | JInt int
  | JStr string
  | JArr "json list"
  | JObj "(string \<times> json) list"

definition getitem :: "json \<Rightarrow> string \<Rightarrow> error + json" where
  "getitem d k =
     (case d of
        JObj kvs \<Rightarrow> (case map_of kvs k of None \<Rightarrow> Inl KeyError | Some v \<Rightarrow> Inr v)
      | _ \<Rightarrow> Inl TypeError)"

section \<open>The collaborators outside the module\<close>

text \<open>
  \<open>Credential\<close> (module \<open>utils.Credential\<close>): the session secrets the module reads.
\<close>

record Credential =
  sessdata :: "string option"
  bili_jct :: "string option"

text \<open>
  Modelled from the spec: the guard method \<open>raise_for_no_sessdata\<close> of the credential
  class, which is not among the sources. The spec says that the credential "exposes
  guard methods that fail fast when a required secret (session id, cross-site-request
  token, etc.) is absent"; this one guards the session id.
\<close>

definition raise_for_no_sessdata :: "Credential \<Rightarrow> error + unit" where
  "raise_for_no_sessdata c =
     (if sessdata c = None then Inl CredentialNoSessdataException else Inr ())"

text \<open>
  Modelled from the spec: the guard method \<open>raise_for_no_bili_jct\<close> of the credential
  class, which is not among the sources; by the same sentence of the spec, it fails
  when the cross-site-request token is absent.
\<close>

definition raise_for_no_bili_jct :: "Credential \<Rightarrow> error + unit" where
  "raise_for_no_bili_jct c =
     (if bili_jct c = None then Inl CredentialNoBiliJctException else Inr ())"

text \<open>\<open>Picture\<close> (module \<open>utils.Picture\<close>): the fields the module reads.\<close>

record Picture =
  url :: string
  width :: int
  height :: int
  content :: string

text \<open>\<open>Vote\<close> (module \<open>vote\<close>): an object built from a vote id, read back as \<open>vote_id\<close>.\<close>

record Vote =
  vote_id :: int

datatype vote_arg = VoteId int | VoteObj Vote

text \<open>
  A \<open>User\<close> or \<open>Topic\<close> object is its instance dictionary, from attribute name to
  value; the builder only ever reads integer ids from it, so the values are integers.
  Reading an attribute that is not there raises \<open>AttributeError\<close>. An argument that
  is "an id or a handle" is \<open>Raw\<close> for the integer and \<open>Handle\<close> for the object
  (the branch \<open>isinstance\<close> selects).
\<close>

type_synonym pyobj = "string \<rightharpoonup> int"

datatype arg = Raw int | Handle pyobj

definition getattr :: "pyobj \<Rightarrow> string \<Rightarrow> error + int" where
  "getattr obj name = (case obj name of None \<Rightarrow> Inl AttributeError | Some v \<Rightarrow> Inr v)"

text \<open>
  Private name mangling: inside the body of class \<open>cls\<close> an identifier that starts
  with two underscores and does not end with two is read as \<open>_cls\<close> followed by the
  identifier, the class name without its leading underscores.
\<close>

definition mangle :: "string \<Rightarrow> string \<Rightarrow> string" where
  "mangle cls name =
     (if prefix ''__'' name \<and> \<not> suffix ''__'' name
      then ''_'' @ dropWhile (\<lambda>c. c = CHR ''_'') cls @ name
      else name)"

text \<open>
  One call through the network dispatcher \<open>utils.network_httpx.request\<close>, with the
  arguments the module passes.
\<close>

record request =
  r_method :: string
  r_url :: string
  r_params :: "(string \<times> json) list"
  r_data :: "(string \<times> json) list"
  r_files :: "(string \<times> string) list"
  r_json_body :: bool
  r_credential :: Credential

text \<open>
  What leaves the process: a dispatcher call, or the self-info lookup of module
  \<open>user\<close>. An operation takes the log of the calls made so far and returns its
  outcome with the log extended by the calls it made.
\<close>

datatype call = Request request | GetSelfInfo Credential

type_synonym 'a io = "call list \<Rightarrow> (error + 'a) \<times> call list"

text \<open>
  The environment: the endpoint table \<open>API = utils.get_api("dynamic")\<close> as
  \<open>api_url section name\<close> for \<open>API[section][name]["url"]\<close>, and the answers of the
  remote side. \<open>name2uid env uname\<close> is the outcome of
  \<open>(await user.name2uid(uname))["uid_list"][0]["uid"]\<close>, an integer id or the exception;
  \<open>get_user_name env uid\<close> is the outcome of
  \<open>(await user.User(int(uid)).get_user_info())["name"]\<close>;
  \<open>get_title env vote_id\<close> that of \<open>sync(vote.get_title())\<close>.
\<close>

record env =
  api_url :: "string \<Rightarrow> string \<Rightarrow> string"
  respond :: "request \<Rightarrow> error + json"
  get_self_info :: "Credential \<Rightarrow> error + json"
  name2uid :: "string \<Rightarrow> error + int"
  get_user_name :: "int \<Rightarrow> error + string"
  get_title :: "int \<Rightarrow> error + string"

definition request :: "env \<Rightarrow> request \<Rightarrow> json io" where
  "request env r log = (respond env r, log @ [Request r])"

section \<open>Mention resolution: \<open>_parse_at\<close>\<close>

text \<open>
  The first loop, over the matches. The state is \<open>(new_text, uid_list, names)\<close>.
  A \<open>KeyError\<close> of the lookup is caught and the match skipped; any other exception,
  and any exception of the name fetch, leaves the function.
\<close>

fun parse_at_loop ::
  "env \<Rightarrow> string list \<Rightarrow> string \<times> string list \<times> string list \<Rightarrow>
   error + (string \<times> string list \<times> string list)" where
  "parse_at_loop env [] st = Inr st"
| "parse_at_loop env (uname # rest) (new_text, uid_list, names) =
     (case name2uid env uname of
        Inl e \<Rightarrow>
          (if e = KeyError then parse_at_loop env rest (new_text, uid_list, names) else Inl e)
      | Inr uid \<Rightarrow>
          (case get_user_name env uid of
             Inl e \<Rightarrow> Inl e
           | Inr name \<Rightarrow>
               parse_at_loop env rest
                 (replace (''@'' @ str_int uid @ '' '') (''@'' @ name @ '' '') new_text,
                  uid_list @ [str_int uid],
                  names @ [name])))"

text \<open>One record of the control array.\<close>

record ctrl_entry =
  c_location :: nat
  c_type :: int
  c_length :: nat
  c_data :: int

text \<open>The second loop, over \<open>enumerate(names)\<close>.\<close>

fun parse_at_ctrl ::
  "string \<Rightarrow> string list \<Rightarrow> (nat \<times> string) list \<Rightarrow> error + ctrl_entry list" where
  "parse_at_ctrl new_text uid_list [] = Inr []"
| "parse_at_ctrl new_text uid_list ((i, name) # rest) =
     (case index new_text (''@'' @ name) of
        Inl e \<Rightarrow> Inl e
      | Inr idx \<Rightarrow>
          (case (if i < length uid_list then int_py (uid_list ! i) else Inl IndexError) of
             Inl e \<Rightarrow> Inl e
           | Inr d \<Rightarrow>
               (case parse_at_ctrl new_text uid_list rest of
                  Inl e \<Rightarrow> Inl e
                | Inr ctrl \<Rightarrow>
                    Inr (\<lparr>c_location = idx, c_type = 1, c_length = 2 + length name, c_data = d\<rparr>
                         # ctrl))))"

text \<open>\<open>json.dumps(ctrl, ensure_ascii=False)\<close> on a list of such records.\<close>

definition dumps_entry :: "ctrl_entry \<Rightarrow> string" where
  "dumps_entry c =
     ''{\"location\": '' @ str_int (int (c_location c)) @
     '', \"type\": '' @ str_int (c_type c) @
     '', \"length\": '' @ str_int (int (c_length c)) @
     '', \"data\": '' @ str_int (c_data c) @ ''}''"

definition dumps_ctrl :: "ctrl_entry list \<Rightarrow> string" where
  "dumps_ctrl ctrl = ''['' @ join '', '' (map dumps_entry ctrl) @ '']''"

text \<open>
  \<open>_parse_at\<close> up to the serialisation: the rewritten text, the list of ids and the
  control records.
\<close>

definition parse_at_parts ::
  "env \<Rightarrow> string \<Rightarrow> error + (string \<times> string list \<times> ctrl_entry list)" where
  "parse_at_parts env text0 =
     (let text = text0 @ '' '' in
      case parse_at_loop env (finditer text) (text, [], []) of
        Inl e \<Rightarrow> Inl e
      | Inr (new_text, uid_list, names) \<Rightarrow>
          (case parse_at_ctrl new_text uid_list (enumerate 0 names) of
             Inl e \<Rightarrow> Inl e
           | Inr ctrl \<Rightarrow> Inr (new_text, uid_list, ctrl)))"

definition parse_at :: "env \<Rightarrow> string \<Rightarrow> error + (string \<times> string \<times> string)" where
  "parse_at env text0 =
     (case parse_at_parts env text0 of
        Inl e \<Rightarrow> Inl e
      | Inr (new_text, uid_list, ctrl) \<Rightarrow> Inr (new_text, join '','' uid_list, dumps_ctrl ctrl))"

section \<open>The feed-item handle: class \<open>Dynamic\<close>\<close>

record Dynamic =
  dynamic_id :: json
  credential :: Credential

definition get_dynamic_id :: "Dynamic \<Rightarrow> json" where
  "get_dynamic_id self = dynamic_id self"

text \<open>The \<open>params\<close> dict of \<open>get_reposts\<close>, as it stands when the request is made.\<close>

definition get_reposts_params :: "Dynamic \<Rightarrow> string \<Rightarrow> (string \<times> json) list" where
  "get_reposts_params self offset =
     (let params = [(''dynamic_id'', dynamic_id self)] in
      if offset \<noteq> ''0'' then AList.update ''offset'' (JStr offset) params else params)"

definition get_reposts :: "env \<Rightarrow> Dynamic \<Rightarrow> string \<Rightarrow> json io" where
  "get_reposts env self offset log =
     request env
       \<lparr>r_method = ''GET'', r_url = api_url env ''info'' ''repost'',
        r_params = get_reposts_params self offset, r_data = [], r_files = [],
        r_json_body = False, r_credential = credential self\<rparr> log"

text \<open>The \<open>data\<close> dict of \<open>set_like\<close>, from the id found in the self-info answer.\<close>

definition set_like_data :: "Dynamic \<Rightarrow> bool \<Rightarrow> json \<Rightarrow> (string \<times> json) list" where
  "set_like_data self status self_uid =
     [(''dynamic_id'', dynamic_id self),
      (''up'', JInt (if status then 1 else 2)),
      (''uid'', self_uid)]"

definition set_like :: "env \<Rightarrow> Dynamic \<Rightarrow> bool \<Rightarrow> json io" where
  "set_like env self status log =
     (case raise_for_no_sessdata (credential self) of
        Inl e \<Rightarrow> (Inl e, log)
      | Inr u \<Rightarrow>
     (case raise_for_no_bili_jct (credential self) of
        Inl e \<Rightarrow> (Inl e, log)
      | Inr u \<Rightarrow>
     (case get_self_info env (credential self) of
        Inl e \<Rightarrow> (Inl e, log @ [GetSelfInfo (credential self)])
      | Inr user_info \<Rightarrow>
     (case getitem user_info ''mid'' of
        Inl e \<Rightarrow> (Inl e, log @ [GetSelfInfo (credential self)])
      | Inr self_uid \<Rightarrow>
          request env
            \<lparr>r_method = ''POST'', r_url = api_url env ''operate'' ''like'', r_params = [],
             r_data = set_like_data self status self_uid,
             r_files = [], r_json_body = False, r_credential = credential self\<rparr>
            (log @ [GetSelfInfo (credential self)])))))"

definition delete :: "env \<Rightarrow> Dynamic \<Rightarrow> json io" where
  "delete env self log =
     (case raise_for_no_sessdata (credential self) of
        Inl e \<Rightarrow> (Inl e, log)
      | Inr u \<Rightarrow>
          request env
            \<lparr>r_method = ''POST'', r_url = api_url env ''operate'' ''delete'', r_params = [],
             r_data = [(''dynamic_id'', dynamic_id self)],
             r_files = [], r_json_body = False, r_credential = credential self\<rparr> log)"

section \<open>\<open>upload_image\<close>\<close>

definition upload_image :: "env \<Rightarrow> Picture \<Rightarrow> Credential \<Rightarrow> json io" where
  "upload_image env img cred log =
     (case raise_for_no_sessdata cred of
        Inl e \<Rightarrow> (Inl e, log)
      | Inr u \<Rightarrow>
     (case raise_for_no_bili_jct cred of
        Inl e \<Rightarrow> (Inl e, log)
      | Inr u \<Rightarrow>
          request env
            \<lparr>r_method = ''POST'', r_url = api_url env ''send'' ''upload_img'', r_params = [],
             r_data = [(''biz'', JStr ''new_dyn''), (''category'', JStr ''daily'')],
             r_files = [(''file_up'', content img)],
             r_json_body = False, r_credential = cred\<rparr> log))"

section \<open>The post builder: class \<open>BuildDynmaic\<close>\<close>

record BuildDynmaic =
  contents :: "json list"
  pics :: "json list"
  attach_card :: "json option"
  topic :: "json option"
  options :: "(string \<times> json) list"

definition BuildDynmaic_init :: BuildDynmaic where
  "BuildDynmaic_init =
     \<lparr>contents = [], pics = [], attach_card = None, topic = None, options = []\<rparr>"

definition add_text :: "string \<Rightarrow> BuildDynmaic \<Rightarrow> BuildDynmaic" where
  "add_text text self =
     self\<lparr>contents := contents self @
       [JObj [(''biz_id'', JStr []),
              (''type'', JInt (DynmaicContentType_value CT_TEXT)),
              (''raw_text'', JStr text)]]\<rparr>"

text \<open>
  \<open>add_at\<close>: for a \<open>User\<close> the id is read as \<open>user.__uid\<close>, an identifier the body of
  class \<open>BuildDynmaic\<close> mangles. The read comes before the append, so a failing read
  leaves the builder as it was.
\<close>

definition add_at :: "arg \<Rightarrow> BuildDynmaic \<Rightarrow> error + BuildDynmaic" where
  "add_at user self =
     (case (case user of
              Handle obj \<Rightarrow> getattr obj (mangle ''BuildDynmaic'' ''__uid'')
            | Raw i \<Rightarrow> Inr i) of
        Inl e \<Rightarrow> Inl e
      | Inr uid \<Rightarrow>
          Inr (self\<lparr>contents := contents self @
            [JObj [(''biz_id'', JInt uid),
                   (''type'', JInt (DynmaicContentType_value CT_EMOJI)),
                   (''raw_text'', JStr (''@'' @ str_int uid))]]\<rparr>))"

definition add_emoji :: "string \<Rightarrow> BuildDynmaic \<Rightarrow> BuildDynmaic" where
  "add_emoji emoji_name self =
     self\<lparr>contents := contents self @
       [JObj [(''biz_id'', JStr []),
              (''type'', JInt (DynmaicContentType_value CT_EMOJI)),
              (''raw_text'', JStr emoji_name)]]\<rparr>"

text \<open>
  The caption \<open>add_vote\<close> puts before the vote. Its code points lie beyond 255, so it
  stands here as its UTF-8 bytes; nothing below depends on its value.
\<close>

definition vote_caption :: string where
  "vote_caption =
     [CHR 0xE6, CHR 0x88, CHR 0x91, CHR 0xE5, CHR 0x8F, CHR 0x91, CHR 0xE8, CHR 0xB5,
      CHR 0xB7, CHR 0xE4, CHR 0xBA, CHR 0x86, CHR 0xE4, CHR 0xB8, CHR 0x80, CHR 0xE4,
      CHR 0xB8, CHR 0xAA, CHR 0xE6, CHR 0x8A, CHR 0x95, CHR 0xE7, CHR 0xA5, CHR 0xA8]"

text \<open>
  \<open>add_vote\<close> appends the caption first and fetches the title afterwards, so when the
  fetch raises the caption is already in the builder: the result is the exception, if
  any, together with the builder as the call leaves it.
\<close>

definition add_vote :: "env \<Rightarrow> vote_arg \<Rightarrow> BuildDynmaic \<Rightarrow> error option \<times> BuildDynmaic" where
  "add_vote env vote self =
     (let self1 = add_text vote_caption self;
          v = (case vote of VoteId i \<Rightarrow> \<lparr>vote_id = i\<rparr> | VoteObj obj \<Rightarrow> obj) in
      case get_title env (vote_id v) of
        Inl e \<Rightarrow> (Some e, self1)
      | Inr title \<Rightarrow>
          (None, self1\<lparr>contents := contents self1 @
            [JObj [(''biz_id'', JStr (str_int (vote_id v))),
                   (''type'', JInt (DynmaicContentType_value CT_VOTE)),
                   (''raw_text'', JStr title)]]\<rparr>))"

definition add_image :: "Picture \<Rightarrow> BuildDynmaic \<Rightarrow> BuildDynmaic" where
  "add_image img self =
     self\<lparr>pics := pics self @
       [JObj [(''img_src'', JStr (url img)),
              (''img_width'', JInt (width img)),
              (''img_height'', JInt (height img))]]\<rparr>"

definition set_attach_card :: "int \<Rightarrow> BuildDynmaic \<Rightarrow> BuildDynmaic" where
  "set_attach_card oid self =
     self\<lparr>attach_card := Some (JObj
       [(''type'', JInt 14), (''biz_id'', JInt oid),
        (''reserve_source'', JInt 1), (''reserve_lottery'', JInt 0)])\<rparr>"

text \<open>\<open>set_topic\<close>: for a \<open>Topic\<close> the id is read as \<open>topic.__topic_id\<close>, mangled likewise.\<close>

definition set_topic :: "arg \<Rightarrow> BuildDynmaic \<Rightarrow> error + BuildDynmaic" where
  "set_topic tp self =
     (case (case tp of
              Handle obj \<Rightarrow> getattr obj (mangle ''BuildDynmaic'' ''__topic_id'')
            | Raw i \<Rightarrow> Inr i) of
        Inl e \<Rightarrow> Inl e
      | Inr tid \<Rightarrow> Inr (self\<lparr>topic := Some (JObj [(''id'', JInt tid)])\<rparr>))"

definition set_options :: "bool \<Rightarrow> bool \<Rightarrow> BuildDynmaic \<Rightarrow> BuildDynmaic" where
  "set_options up_choose_comment close_comment self =
     (let o1 = (if up_choose_comment
                then AList.update ''up_choose_comment'' (JInt 1) (options self)
                else options self);
          o2 = (if close_comment then AList.update ''close_comment'' (JInt 1) o1 else o1)
      in self\<lparr>options := o2\<rparr>)"

definition get_dynamic_type :: "BuildDynmaic \<Rightarrow> SendDynmaicType" where
  "get_dynamic_type self = (if length (pics self) \<noteq> 0 then IMAGE else TEXT)"

definition get_contents :: "BuildDynmaic \<Rightarrow> json list" where
  "get_contents self = contents self"

definition get_pics :: "BuildDynmaic \<Rightarrow> json list" where
  "get_pics self = pics self"

definition get_attach_card :: "BuildDynmaic \<Rightarrow> json option" where
  "get_attach_card self = attach_card self"

definition get_topic :: "BuildDynmaic \<Rightarrow> json option" where
  "get_topic self = topic self"

definition get_options :: "BuildDynmaic \<Rightarrow> (string \<times> json) list" where
  "get_options self = options self"

text \<open>
  A caller's use of a builder: a sequence of method calls on one object. A call that
  raises leaves the object as the method left it, and the caller may go on using it.
\<close>

datatype builder_op =
    AddText string
  | AddAt arg
  | AddEmoji string
  | AddVote vote_arg
  | AddImage Picture
  | SetAttachCard int
  | SetTopic arg
  | SetOptions bool bool

fun apply_op :: "env \<Rightarrow> builder_op \<Rightarrow> BuildDynmaic \<Rightarrow> BuildDynmaic" where
  "apply_op env (AddText s) self = add_text s self"
| "apply_op env (AddAt a) self = (case add_at a self of Inl e \<Rightarrow> self | Inr self' \<Rightarrow> self')"
| "apply_op env (AddEmoji s) self = add_emoji s self"
| "apply_op env (AddVote v) self = snd (add_vote env v self)"
| "apply_op env (AddImage p) self = add_image p self"
| "apply_op env (SetAttachCard oid) self = set_attach_card oid self"
| "apply_op env (SetTopic t) self = (case set_topic t self of Inl e \<Rightarrow> self | Inr self' \<Rightarrow> self')"
| "apply_op env (SetOptions a b) self = set_options a b self"

fun run_ops :: "env \<Rightarrow> builder_op list \<Rightarrow> BuildDynmaic \<Rightarrow> BuildDynmaic" where
  "run_ops env [] self = self"
| "run_ops env (x # xs) self = run_ops env xs (apply_op env x self)"

fun is_add_image :: "builder_op \<Rightarrow> bool" where
  "is_add_image (AddImage p) = True"
| "is_add_image x = False"

section \<open>Submission: \<open>send_dynamic\<close>\<close>

text \<open>The dict \<open>data["dyn_req"]\<close> as it stands when the request is made.\<close>

definition send_dynamic_dyn_req :: "BuildDynmaic \<Rightarrow> (string \<times> json) list" where
  "send_dynamic_dyn_req info =
     (let d0 = [(''content'', JObj [(''contents'', JArr (get_contents info))]),
                (''scene'', JInt (SendDynmaicType_value (get_dynamic_type info))),
                (''meta'', JObj [(''app_meta'',
                   JObj [(''from'', JStr ''create.dynamic.web''), (''mobi_app'', JStr ''web'')])])];
          d1 = (if length (get_pics info) \<noteq> 0
                then AList.update ''pics'' (JArr (get_pics info)) d0 else d0);
          d2 = (case get_topic info of
                  Some t \<Rightarrow> AList.update ''topic'' t d1
                | None \<Rightarrow> d1);
          d3 = (if length (get_options info) > 0
                then AList.update ''option'' (JObj (get_options info)) d2 else d2)
      in case get_attach_card info of
           Some ac \<Rightarrow> AList.update ''attach_card'' (JObj [(''common_card'', ac)]) d3
         | None \<Rightarrow> AList.update ''attach_card'' JNull d3)"

definition send_dynamic_request :: "env \<Rightarrow> BuildDynmaic \<Rightarrow> Credential \<Rightarrow> request" where
  "send_dynamic_request env info cred =
     \<lparr>r_method = ''POST'', r_url = api_url env ''send'' ''instant'',
      r_params = [(''csrf'', (case bili_jct cred of None \<Rightarrow> JNull | Some t \<Rightarrow> JStr t))],
      r_data = [(''dyn_req'', JObj (send_dynamic_dyn_req info))],
      r_files = [], r_json_body = True, r_credential = cred\<rparr>"

definition send_dynamic :: "env \<Rightarrow> BuildDynmaic \<Rightarrow> Credential \<Rightarrow> Dynamic io" where
  "send_dynamic env info cred log =
     (case raise_for_no_sessdata cred of
        Inl e \<Rightarrow> (Inl e, log)
      | Inr u \<Rightarrow>
     (case request env (send_dynamic_request env info cred) log of
        (Inl e, log') \<Rightarrow> (Inl e, log')
      | (Inr send_result, log') \<Rightarrow>
     (case getitem send_result ''dyn_id'' of
        Inl e \<Rightarrow> (Inl e, log')
      | Inr dyn_id \<Rightarrow> (Inr \<lparr>dynamic_id = dyn_id, credential = cred\<rparr>, log'))))"

section \<open>A concrete environment\<close>

text \<open>
  An environment to run the operations in: the platform knows one user, found under the
  name \<open>alice\<close> with id 123, whose canonical display name is \<open>Alice\<close>; every request
  is answered with a new post id, the acting user has id 7.
\<close>

definition demo_env :: env where
  "demo_env =
     \<lparr>api_url = (\<lambda>section name. ''https://api.example/'' @ section @ ''/'' @ name),
      respond = (\<lambda>r. Inr (JObj [(''dyn_id'', JInt 42)])),
      get_self_info = (\<lambda>c. Inr (JObj [(''mid'', JInt 7)])),
      name2uid = (\<lambda>uname. if uname = ''alice'' then Inr 123 else Inl KeyError),
      get_user_name = (\<lambda>uid. Inr ''Alice''),
      get_title = (\<lambda>vid. Inr ''poll'')\<rparr>"

section \<open>Properties of mention resolution\<close>

subsection \<open>When the pattern matches\<close>

lemma finditer_at_no_at: "CHR ''@'' \<notin> set cs \<Longrightarrow> finditer_at False adv cs = []"
proof (induction cs arbitrary: adv)
  case Nil
  show ?case by (simp add: finditer_at.simps)
next
  case (Cons c cs)
  then have "c \<noteq> CHR ''@''" and "finditer_at False False cs = []"
    by auto
  then show ?case by (subst finditer_at.simps) simp
qed

lemma lazy_end_some: "\<exists>c\<in>set cs. is_space c \<Longrightarrow> lazy_end cs \<noteq> None"
  by (induction cs) (auto simp: is_space_def newline_def)

lemma finditer_at_nonempty:
  "CHR ''@'' \<in> set cs \<Longrightarrow> is_space (last cs) \<Longrightarrow> finditer_at prev adv cs \<noteq> []"
proof (induction cs arbitrary: prev adv)
  case Nil
  then show ?case by simp
next
  case (Cons c cs)
  show ?case
  proof (cases "(if prev then (if adv then lazy_end_advance (c # cs) else lazy_end (c # cs)) else None)")
    case (Some k)
    then show ?thesis by (subst finditer_at.simps) simp
  next
    case None
    have "finditer_at (c = CHR ''@'') False cs \<noteq> []"
    proof (cases "c = CHR ''@''")
      case True
      with Cons.prems have ne: "cs \<noteq> []" by (auto simp: is_space_def)
      with Cons.prems have "is_space (last cs)" by simp
      with ne have "\<exists>x\<in>set cs. is_space x" using last_in_set by blast
      then obtain k where "lazy_end cs = Some k" using lazy_end_some by blast
      with True show ?thesis by (subst finditer_at.simps) simp
    next
      case False
      with Cons.prems have "CHR ''@'' \<in> set cs" by simp
      moreover from this Cons.prems have "is_space (last cs)" by (auto split: if_splits)
      ultimately show ?thesis using False Cons.IH by blast
    qed
    with None show ?thesis by (subst finditer_at.simps) simp
  qed
qed

text \<open>
  With the sentinel space appended, the pattern has no match exactly when the text has
  no \<open>@\<close>: every \<open>@\<close> starts a token, possibly an empty one.
\<close>

lemma finditer_empty_iff: "finditer (text @ '' '') = [] \<longleftrightarrow> CHR ''@'' \<notin> set text"
proof
  assume none: "finditer (text @ '' '') = []"
  show "CHR ''@'' \<notin> set text"
  proof
    assume "CHR ''@'' \<in> set text"
    then have "finditer_at False False (text @ '' '') \<noteq> []"
      by (intro finditer_at_nonempty) (auto simp: is_space_def)
    with none show False by (simp add: finditer_def)
  qed
next
  assume "CHR ''@'' \<notin> set text"
  then show "finditer (text @ '' '') = []"
    by (simp add: finditer_def finditer_at_no_at)
qed

subsection \<open>One resolvable mention\<close>

text \<open>
  C1. For a text with exactly one resolvable mention \<open>@alice \<close>, the claim is that
  \<open>_parse_at\<close> returns a text containing \<open>@\<close> followed by the resolved display name, one
  id and one control record of length 2 + the length of that name. The code replaces
  \<open>@<uid> \<close>, a key the text does not contain, by \<open>@<name> \<close>, and then looks for
  \<open>@<name>\<close> in the text. When the canonical name differs from the name as typed, here
  \<open>Alice\<close> for \<open>alice\<close>, the text still reads \<open>@alice\<close>, the search fails and the
  function raises \<open>ValueError\<close> instead of returning.
\<close>

theorem parse_at_stale_name_raises:
  "finditer (''@alice '' @ '' '') = [''alice'']
   \<and> name2uid demo_env ''alice'' = Inr 123
   \<and> get_user_name demo_env 123 = Inr ''Alice''
   \<and> parse_at demo_env ''@alice '' = Inl ValueError"
  by code_simp

text \<open>
  When the canonical name is the name as typed, the function returns what the claim
  describes: the text with the sentinel, the id, and a record of length 2 + 5.
\<close>

lemma parse_at_same_name_example:
  "parse_at (demo_env\<lparr>get_user_name := (\<lambda>uid. Inr ''alice'')\<rparr>) ''@alice '' =
     Inr (''@alice  '', ''123'',
          ''[{\"location\": 0, \"type\": 1, \"length\": 7, \"data\": 123}]'')"
  by code_simp

subsection \<open>No mention\<close>

text \<open>
  C2, as stated: a text without any \<open>@token \<close> comes back unchanged, with an empty id
  list and an empty control array. It does not come back unchanged: the sentinel space
  appended before matching is part of the returned text.
\<close>

theorem parse_at_no_mention_not_unchanged:
  "finditer (''hello'' @ '' '') = []
   \<and> parse_at demo_env ''hello'' \<noteq> Inr (''hello'', [], ''[]'')"
  by code_simp

text \<open>
  C2, amended: for a text in which the pattern has no match, \<open>_parse_at\<close> returns the text
  followed by one space, the empty id string and the empty control array \<open>[]\<close>.
\<close>

theorem parse_at_no_mention:
  "finditer (text @ '' '') = [] \<Longrightarrow> parse_at env text = Inr (text @ '' '', [], ''[]'')"
  by (simp add: parse_at_def parse_at_parts_def dumps_ctrl_def)

theorem parse_at_no_mention_witness:
  "finditer (''hello'' @ '' '') = []
   \<and> parse_at demo_env ''hello'' = Inr (''hello'' @ '' '', [], ''[]'')"
proof -
  have h: "finditer (''hello'' @ '' '') = []"
    by code_simp
  from parse_at_no_mention [OF h, of demo_env] h show ?thesis
    by simp
qed

subsection \<open>An unresolvable mention\<close>

text \<open>
  C3. A token whose lookup fails with "user not found" (the \<open>KeyError\<close> the loop
  catches) is skipped: the loop over that token alone returns its state, that is the
  text, the id list and the name list, as it was, without an error; and in any list
  of tokens the outcome is the one the loop has without that token.
\<close>

theorem parse_at_skips_unresolved:
  "name2uid env uname = Inl KeyError \<Longrightarrow>
     parse_at_loop env [uname] st = Inr st
     \<and> parse_at_loop env (pre @ uname # post) st = parse_at_loop env (pre @ post) st"
proof -
  assume nf: "name2uid env uname = Inl KeyError"
  have one: "parse_at_loop env (uname # rest) s = parse_at_loop env rest s" for rest s
    using nf by (cases s) simp
  have "parse_at_loop env (pre @ uname # post) s = parse_at_loop env (pre @ post) s" for s
  proof (induction pre arbitrary: s)
    case Nil
    show ?case by (simp add: one)
  next
    case (Cons p pre)
    obtain t us ns where s: "s = (t, us, ns)"
      by (cases s)
    show ?case
      unfolding s using Cons.IH
      by (simp split: sum.splits)
  qed
  with one [of "[]" st] show ?thesis
    by simp
qed

theorem parse_at_skips_unresolved_witness:
  "name2uid demo_env ''bob'' = Inl KeyError
   \<and> parse_at_loop demo_env [''bob''] (''@alice @bob '', [], []) = Inr (''@alice @bob '', [], [])
   \<and> parse_at_loop demo_env ([''alice''] @ ''bob'' # []) (''@alice @bob '', [], [])
     = parse_at_loop demo_env ([''alice''] @ []) (''@alice @bob '', [], [])"
proof -
  have h: "name2uid demo_env ''bob'' = Inl KeyError"
    by (simp add: demo_env_def)
  from parse_at_skips_unresolved [OF h, of "(''@alice @bob '', [], [])" "[''alice'']" "[]"] h
  show ?thesis
    by simp
qed

section \<open>Properties of the post builder\<close>

subsection \<open>The fragment \<open>add_at\<close> appends\<close>

text \<open>
  C4. The claim is that \<open>add_at\<close> appends one fragment of the mention kind, the code of
  \<open>DynmaicContentType.AT\<close>, with the user id as biz-id. For the id 123 the code appends
  one fragment with biz-id 123 and text \<open>@123\<close>, but its type is 9, the code of
  \<open>DynmaicContentType.EMOJI\<close>; the code of \<open>AT\<close> is 2.
\<close>

theorem add_at_appends_emoji_kind:
  "add_at (Raw 123) BuildDynmaic_init =
     Inr (BuildDynmaic_init\<lparr>contents :=
       [JObj [(''biz_id'', JInt 123), (''type'', JInt 9), (''raw_text'', JStr ''@123'')]]\<rparr>)
   \<and> DynmaicContentType_value CT_EMOJI = 9
   \<and> DynmaicContentType_value CT_AT = 2"
  by code_simp

subsection \<open>Handles as arguments\<close>

lemma mangle_uid: "mangle ''BuildDynmaic'' ''__uid'' = ''_BuildDynmaic__uid''"
  by code_simp

lemma mangle_topic_id: "mangle ''BuildDynmaic'' ''__topic_id'' = ''_BuildDynmaic__topic_id''"
  by code_simp

text \<open>
  C10. Inside class \<open>BuildDynmaic\<close> the reads \<open>user.__uid\<close> and \<open>topic.__topic_id\<close> are
  reads of \<open>_BuildDynmaic__uid\<close> and \<open>_BuildDynmaic__topic_id\<close>. A handle of another
  class has no attribute of that name (its own private attributes carry its own class
  name), so \<open>add_at\<close> and \<open>set_topic\<close> raise \<open>AttributeError\<close> on it; on an integer
  both return a builder, whatever the integer.
\<close>

theorem handle_argument_raises_attribute_error:
  "(obj ''_BuildDynmaic__uid'' = None \<longrightarrow> add_at (Handle obj) self = Inl AttributeError)
   \<and> (obj ''_BuildDynmaic__topic_id'' = None \<longrightarrow> set_topic (Handle obj) self = Inl AttributeError)
   \<and> (\<exists>self'. add_at (Raw i) self = Inr self')
   \<and> (\<exists>self'. set_topic (Raw i) self = Inr self')"
  by (simp add: add_at_def set_topic_def getattr_def mangle_uid mangle_topic_id)

theorem handle_argument_raises_attribute_error_witness:
  "[mangle ''User'' ''__uid'' \<mapsto> (5::int)] ''_BuildDynmaic__uid'' = None
   \<and> add_at (Handle [mangle ''User'' ''__uid'' \<mapsto> 5]) BuildDynmaic_init = Inl AttributeError
   \<and> [mangle ''Topic'' ''__topic_id'' \<mapsto> (9::int)] ''_BuildDynmaic__topic_id'' = None
   \<and> set_topic (Handle [mangle ''Topic'' ''__topic_id'' \<mapsto> 9]) BuildDynmaic_init
       = Inl AttributeError"
proof -
  have u: "mangle ''User'' ''__uid'' = ''_User__uid''"
    by code_simp
  have t: "mangle ''Topic'' ''__topic_id'' = ''_Topic__topic_id''"
    by code_simp
  have hu: "[mangle ''User'' ''__uid'' \<mapsto> (5::int)] ''_BuildDynmaic__uid'' = None"
    by (simp add: u)
  have ht: "[mangle ''Topic'' ''__topic_id'' \<mapsto> (9::int)] ''_BuildDynmaic__topic_id'' = None"
    by (simp add: t)
  from handle_argument_raises_attribute_error
         [of "[mangle ''User'' ''__uid'' \<mapsto> 5]" BuildDynmaic_init 0]
       handle_argument_raises_attribute_error
         [of "[mangle ''Topic'' ''__topic_id'' \<mapsto> 9]" BuildDynmaic_init 0]
       hu ht
  show ?thesis
    by blast
qed

subsection \<open>The transmission scene\<close>

lemma pics_apply_op_empty:
  "(pics (apply_op env x self) = []) = (pics self = [] \<and> \<not> is_add_image x)"
  by (cases x)
     (auto simp: add_text_def add_at_def add_emoji_def add_vote_def add_image_def
        set_attach_card_def set_topic_def set_options_def Let_def
        split: sum.splits arg.splits)

lemma pics_run_ops_empty:
  "(pics (run_ops env ops self) = []) = (pics self = [] \<and> \<not> list_ex is_add_image ops)"
  by (induction ops arbitrary: self) (auto simp: pics_apply_op_empty)

text \<open>
  C6. Whatever calls were made on a fresh builder, in whatever order, and whether or
  not some of them raised: \<open>get_dynamic_type\<close> is \<open>IMAGE\<close> when one of the calls was
  \<open>add_image\<close>, and \<open>TEXT\<close> when none was.
\<close>

theorem get_dynamic_type_image_iff_add_image:
  "get_dynamic_type (run_ops env ops BuildDynmaic_init) =
     (if list_ex is_add_image ops then IMAGE else TEXT)"
  by (simp add: get_dynamic_type_def pics_run_ops_empty BuildDynmaic_init_def)

theorem get_dynamic_type_image_iff_add_image_witness:
  "get_dynamic_type
     (run_ops demo_env
        [AddText ''hello'', AddImage \<lparr>url = ''u'', width = 10, height = 20, content = []\<rparr>,
         AddAt (Raw 5), AddEmoji ''[ok]'']
        BuildDynmaic_init) = IMAGE
   \<and> get_dynamic_type
       (run_ops demo_env [AddText ''hello'', AddAt (Raw 5), AddVote (VoteId 3)] BuildDynmaic_init)
     = TEXT"
  using get_dynamic_type_image_iff_add_image
          [of demo_env "[AddText ''hello'',
             AddImage \<lparr>url = ''u'', width = 10, height = 20, content = []\<rparr>,
             AddAt (Raw 5), AddEmoji ''[ok]'']"]
        get_dynamic_type_image_iff_add_image
          [of demo_env "[AddText ''hello'', AddAt (Raw 5), AddVote (VoteId 3)]"]
  by simp

section \<open>Properties of submission\<close>

lemma send_dynamic_issues_request:
  "sessdata cred \<noteq> None \<Longrightarrow>
     snd (send_dynamic env info cred log) = log @ [Request (send_dynamic_request env info cred)]"
  by (auto simp: send_dynamic_def raise_for_no_sessdata_def request_def
        split: sum.splits prod.splits)

lemma send_dynamic_dyn_req_keys:
  "r_data (send_dynamic_request env info cred) = [(''dyn_req'', JObj (send_dynamic_dyn_req info))]
   \<and> (pics info = [] \<longrightarrow> map_of (send_dynamic_dyn_req info) ''pics'' = None)
   \<and> (topic info = None \<longrightarrow> map_of (send_dynamic_dyn_req info) ''topic'' = None)
   \<and> (options info = [] \<longrightarrow> map_of (send_dynamic_dyn_req info) ''option'' = None)
   \<and> map_of (send_dynamic_dyn_req info) ''attach_card'' =
        Some (case attach_card info of
                None \<Rightarrow> JNull
              | Some ac \<Rightarrow> JObj [(''common_card'', ac)])"
  by (simp add: send_dynamic_request_def send_dynamic_dyn_req_def Let_def update_conv'
        get_contents_def get_pics_def get_topic_def get_options_def get_attach_card_def
        split: option.splits)

text \<open>
  C5. With the session secret present, \<open>send_dynamic\<close> makes exactly one request, whatever
  the builder holds and whatever the remote side answers. The body of that request is
  \<open>{"dyn_req": ...}\<close>, and in that inner dict the key \<open>pics\<close> is absent when the builder
  has no picture, \<open>topic\<close> is absent when no topic was set, \<open>option\<close> is absent when the
  options are empty, and \<open>attach_card\<close> is always there: the card wrapped as
  \<open>{"common_card": card}\<close> when one was set, \<open>None\<close> when not.
\<close>

theorem send_dynamic_optional_keys:
  assumes "sessdata cred \<noteq> None"
  shows "\<exists>r dyn_req.
           snd (send_dynamic env info cred log) = log @ [Request r]
           \<and> r_data r = [(''dyn_req'', JObj dyn_req)]
           \<and> (pics info = [] \<longrightarrow> map_of dyn_req ''pics'' = None)
           \<and> (topic info = None \<longrightarrow> map_of dyn_req ''topic'' = None)
           \<and> (options info = [] \<longrightarrow> map_of dyn_req ''option'' = None)
           \<and> map_of dyn_req ''attach_card'' =
                Some (case attach_card info of
                        None \<Rightarrow> JNull
                      | Some ac \<Rightarrow> JObj [(''common_card'', ac)])"
proof (intro exI conjI)
  show "snd (send_dynamic env info cred log) = log @ [Request (send_dynamic_request env info cred)]"
    using assms by (rule send_dynamic_issues_request)
  show "r_data (send_dynamic_request env info cred) = [(''dyn_req'', JObj (send_dynamic_dyn_req info))]"
    using send_dynamic_dyn_req_keys [of env info cred] by blast
  show "pics info = [] \<longrightarrow> map_of (send_dynamic_dyn_req info) ''pics'' = None"
    using send_dynamic_dyn_req_keys [of env info cred] by blast
  show "topic info = None \<longrightarrow> map_of (send_dynamic_dyn_req info) ''topic'' = None"
    using send_dynamic_dyn_req_keys [of env info cred] by blast
  show "options info = [] \<longrightarrow> map_of (send_dynamic_dyn_req info) ''option'' = None"
    using send_dynamic_dyn_req_keys [of env info cred] by blast
  show "map_of (send_dynamic_dyn_req info) ''attach_card'' =
          Some (case attach_card info of
                  None \<Rightarrow> JNull
                | Some ac \<Rightarrow> JObj [(''common_card'', ac)])"
    using send_dynamic_dyn_req_keys [of env info cred] by blast
qed

theorem send_dynamic_optional_keys_witness:
  "sessdata \<lparr>sessdata = Some ''s'', bili_jct = Some ''t''\<rparr> \<noteq> None
   \<and> pics BuildDynmaic_init = [] \<and> topic BuildDynmaic_init = None
   \<and> options BuildDynmaic_init = []
   \<and> (\<exists>r dyn_req.
         snd (send_dynamic demo_env BuildDynmaic_init
                \<lparr>sessdata = Some ''s'', bili_jct = Some ''t''\<rparr> []) = [Request r]
         \<and> r_data r = [(''dyn_req'', JObj dyn_req)]
         \<and> map_of dyn_req ''pics'' = None
         \<and> map_of dyn_req ''topic'' = None
         \<and> map_of dyn_req ''option'' = None
         \<and> map_of dyn_req ''attach_card'' = Some JNull)
   \<and> (\<exists>r dyn_req.
         snd (send_dynamic demo_env (set_attach_card 5 BuildDynmaic_init)
                \<lparr>sessdata = Some ''s'', bili_jct = Some ''t''\<rparr> []) = [Request r]
         \<and> r_data r = [(''dyn_req'', JObj dyn_req)]
         \<and> map_of dyn_req ''attach_card'' =
              Some (JObj [(''common_card'',
                      JObj [(''type'', JInt 14), (''biz_id'', JInt 5),
                            (''reserve_source'', JInt 1), (''reserve_lottery'', JInt 0)])]))"
proof -
  let ?c = "\<lparr>sessdata = Some ''s'', bili_jct = Some ''t''\<rparr>"
  have h: "sessdata ?c \<noteq> None"
    by simp
  have e: "pics BuildDynmaic_init = [] \<and> topic BuildDynmaic_init = None
           \<and> options BuildDynmaic_init = [] \<and> attach_card BuildDynmaic_init = None"
    by (simp add: BuildDynmaic_init_def)
  have a: "attach_card (set_attach_card 5 BuildDynmaic_init) =
             Some (JObj [(''type'', JInt 14), (''biz_id'', JInt 5),
                         (''reserve_source'', JInt 1), (''reserve_lottery'', JInt 0)])"
    by (simp add: set_attach_card_def)
  from send_dynamic_optional_keys [OF h, of demo_env BuildDynmaic_init "[]"] e
  have first: "\<exists>r dyn_req.
         snd (send_dynamic demo_env BuildDynmaic_init ?c []) = [Request r]
         \<and> r_data r = [(''dyn_req'', JObj dyn_req)]
         \<and> map_of dyn_req ''pics'' = None
         \<and> map_of dyn_req ''topic'' = None
         \<and> map_of dyn_req ''option'' = None
         \<and> map_of dyn_req ''attach_card'' = Some JNull"
    by simp
  from send_dynamic_optional_keys [OF h, of demo_env "set_attach_card 5 BuildDynmaic_init" "[]"] a
  have second: "\<exists>r dyn_req.
         snd (send_dynamic demo_env (set_attach_card 5 BuildDynmaic_init) ?c []) = [Request r]
         \<and> r_data r = [(''dyn_req'', JObj dyn_req)]
         \<and> map_of dyn_req ''attach_card'' =
              Some (JObj [(''common_card'',
                      JObj [(''type'', JInt 14), (''biz_id'', JInt 5),
                            (''reserve_source'', JInt 1), (''reserve_lottery'', JInt 0)])])"
    by (simp only: option.case append_Nil) blast
  from h e first second show ?thesis
    by blast
qed

section \<open>Properties of the guarded operations\<close>

text \<open>
  C7. Each of \<open>send_dynamic\<close>, \<open>upload_image\<close>, \<open>set_like\<close> and \<open>delete\<close> checks the
  credential first. Without the session secret each of them raises the precondition
  error with the call log as it was: nothing was sent. \<open>upload_image\<close> and \<open>set_like\<close>
  also want the cross-site-request token, and without it raise likewise.
\<close>

theorem missing_secret_raises_before_any_call:
  "(sessdata cred = None \<longrightarrow>
      send_dynamic env info cred log = (Inl CredentialNoSessdataException, log)
      \<and> upload_image env img cred log = (Inl CredentialNoSessdataException, log)
      \<and> set_like env \<lparr>dynamic_id = d, credential = cred\<rparr> status log
          = (Inl CredentialNoSessdataException, log)
      \<and> delete env \<lparr>dynamic_id = d, credential = cred\<rparr> log
          = (Inl CredentialNoSessdataException, log))
   \<and> (sessdata cred \<noteq> None \<and> bili_jct cred = None \<longrightarrow>
      upload_image env img cred log = (Inl CredentialNoBiliJctException, log)
      \<and> set_like env \<lparr>dynamic_id = d, credential = cred\<rparr> status log
          = (Inl CredentialNoBiliJctException, log))"
  by (auto simp: send_dynamic_def upload_image_def set_like_def delete_def
        raise_for_no_sessdata_def raise_for_no_bili_jct_def)

theorem missing_secret_raises_before_any_call_witness:
  "sessdata \<lparr>sessdata = None, bili_jct = Some ''t''\<rparr> = None
   \<and> send_dynamic demo_env BuildDynmaic_init \<lparr>sessdata = None, bili_jct = Some ''t''\<rparr> []
       = (Inl CredentialNoSessdataException, [])
   \<and> delete demo_env \<lparr>dynamic_id = JInt 1, credential = \<lparr>sessdata = None, bili_jct = Some ''t''\<rparr>\<rparr> []
       = (Inl CredentialNoSessdataException, [])
   \<and> sessdata \<lparr>sessdata = Some ''s'', bili_jct = None\<rparr> \<noteq> None
   \<and> bili_jct \<lparr>sessdata = Some ''s'', bili_jct = None\<rparr> = None
   \<and> upload_image demo_env \<lparr>url = ''u'', width = 10, height = 20, content = ''raw''\<rparr>
         \<lparr>sessdata = Some ''s'', bili_jct = None\<rparr> []
       = (Inl CredentialNoBiliJctException, [])
   \<and> set_like demo_env
         \<lparr>dynamic_id = JInt 1, credential = \<lparr>sessdata = Some ''s'', bili_jct = None\<rparr>\<rparr> True []
       = (Inl CredentialNoBiliJctException, [])"
  using missing_secret_raises_before_any_call
          [of "\<lparr>sessdata = None, bili_jct = Some ''t''\<rparr>" demo_env BuildDynmaic_init "[]"
              "\<lparr>url = ''u'', width = 10, height = 20, content = ''raw''\<rparr>" "JInt 1" True]
        missing_secret_raises_before_any_call
          [of "\<lparr>sessdata = Some ''s'', bili_jct = None\<rparr>" demo_env BuildDynmaic_init "[]"
              "\<lparr>url = ''u'', width = 10, height = 20, content = ''raw''\<rparr>" "JInt 1" True]
  by simp

section \<open>Properties of the feed-item handle\<close>

text \<open>
  C8. \<open>get_reposts\<close> makes one request, and its parameters carry the post id and,
  under the key \<open>offset\<close>, the offset string: nothing when the offset is \<open>"0"\<close>, the
  string itself for every other value.
\<close>

theorem get_reposts_offset_parameter:
  "\<exists>r. get_reposts env self offset log = (respond env r, log @ [Request r])
       \<and> map_of (r_params r) ''dynamic_id'' = Some (dynamic_id self)
       \<and> map_of (r_params r) ''offset'' = (if offset = ''0'' then None else Some (JStr offset))"
  by (simp add: get_reposts_def get_reposts_params_def request_def)

theorem get_reposts_offset_parameter_witness:
  "(\<exists>r. get_reposts demo_env \<lparr>dynamic_id = JInt 1, credential = \<lparr>sessdata = None, bili_jct = None\<rparr>\<rparr>
           ''0'' [] = (respond demo_env r, [] @ [Request r])
        \<and> map_of (r_params r) ''dynamic_id'' = Some (JInt 1)
        \<and> map_of (r_params r) ''offset'' = None)
   \<and> (\<exists>r. get_reposts demo_env \<lparr>dynamic_id = JInt 1, credential = \<lparr>sessdata = None, bili_jct = None\<rparr>\<rparr>
           ''123'' [] = (respond demo_env r, [] @ [Request r])
        \<and> map_of (r_params r) ''dynamic_id'' = Some (JInt 1)
        \<and> map_of (r_params r) ''offset'' = Some (JStr ''123''))"
  using get_reposts_offset_parameter
          [of demo_env "\<lparr>dynamic_id = JInt 1, credential = \<lparr>sessdata = None, bili_jct = None\<rparr>\<rparr>"
              "''0''" "[]"]
        get_reposts_offset_parameter
          [of demo_env "\<lparr>dynamic_id = JInt 1, credential = \<lparr>sessdata = None, bili_jct = None\<rparr>\<rparr>"
              "''123''" "[]"]
  by simp

text \<open>
  C9. With both secrets present and a self-info answer that carries the acting user's
  id under \<open>mid\<close>, \<open>set_like\<close> makes the self-info lookup and then one request whose
  data has \<open>up\<close> as the integer 1 for \<open>True\<close> and 2 for \<open>False\<close>, and \<open>uid\<close> as the id
  found in the answer.
\<close>

theorem set_like_encodes_status:
  assumes "sessdata (credential self) \<noteq> None"
    and "bili_jct (credential self) \<noteq> None"
    and "get_self_info env (credential self) = Inr user_info"
    and "getitem user_info ''mid'' = Inr self_uid"
  shows "\<exists>r. set_like env self status log
               = (respond env r, log @ [GetSelfInfo (credential self), Request r])
           \<and> map_of (r_data r) ''up'' = Some (JInt (if status then 1 else 2))
           \<and> map_of (r_data r) ''uid'' = Some self_uid
           \<and> map_of (r_data r) ''dynamic_id'' = Some (dynamic_id self)"
  using assms
  by (simp add: set_like_def set_like_data_def raise_for_no_sessdata_def
        raise_for_no_bili_jct_def request_def)

theorem set_like_encodes_status_witness:
  "(\<exists>r. set_like demo_env
           \<lparr>dynamic_id = JInt 1, credential = \<lparr>sessdata = Some ''s'', bili_jct = Some ''t''\<rparr>\<rparr>
           False []
         = (respond demo_env r,
            [] @ [GetSelfInfo \<lparr>sessdata = Some ''s'', bili_jct = Some ''t''\<rparr>, Request r])
       \<and> map_of (r_data r) ''up'' = Some (JInt 2)
       \<and> map_of (r_data r) ''uid'' = Some (JInt 7)
       \<and> map_of (r_data r) ''dynamic_id'' = Some (JInt 1))"
proof -
  let ?c = "\<lparr>sessdata = Some ''s'', bili_jct = Some ''t''\<rparr>"
  let ?d = "\<lparr>dynamic_id = JInt 1, credential = ?c\<rparr>"
  have h1: "sessdata (credential ?d) \<noteq> None" and h2: "bili_jct (credential ?d) \<noteq> None"
    by simp_all
  have h3: "get_self_info demo_env (credential ?d) = Inr (JObj [(''mid'', JInt 7)])"
    by (simp add: demo_env_def)
  have h4: "getitem (JObj [(''mid'', JInt 7)]) ''mid'' = Inr (JInt 7)"
    by (simp add: getitem_def)
  from set_like_encodes_status [OF h1 h2 h3 h4, of False "[]"] show ?thesis
    by simp
qed

end
